theory Spec2Isabelle
  imports Complex_Main
begin

section \<open>Data model (types of the visualization)\<close>

text \<open>
  Numbers of the TypeScript source are IEEE doubles; they are modelled as \<^typ>\<open>real\<close>
  (no NaN, no infinities, no rounding). A nullable number \<open>number | null\<close> is a
  \<^typ>\<open>real option\<close>. A polygon vertex is a pair \<open>[lat, lon]\<close>.
\<close>

type_synonym vertex = "real \<times> real"

datatype OutcomeType = Stunting | Consumption | Roads

record MergedDistrictData =
  ubigeo :: int
  mita :: int
  polygon :: "vertex list"
  centroidLon :: real
  centroidLat :: real
  distance :: "real option"
  isInside :: bool
  consumption :: "real option"
  stunting :: "real option"
  roads :: "real option"

record ScatterDataPoint = MergedDistrictData +
  scatterX :: real
  scatterY :: real
  stuntingY :: "real option"
  consumptionY :: "real option"
  roadsY :: "real option"

text \<open>The dynamic field lookup \<open>d[currentOutcome]\<close>.\<close>

fun outcomeValue :: "'a MergedDistrictData_scheme \<Rightarrow> OutcomeType \<Rightarrow> real option" where
  "outcomeValue d Stunting = stunting d"
| "outcomeValue d Consumption = consumption d"
| "outcomeValue d Roads = roads d"

text \<open>
  The cast \<open>x as number\<close> of a nullable number used in arithmetic: JavaScript coerces
  \<open>null\<close> to \<open>0\<close> (\<open>Math.abs(null) = 0\<close>, \<open>null * 100 = 0\<close>).
\<close>

fun asNumber :: "real option \<Rightarrow> real" where
  "asNumber None = 0"
| "asNumber (Some x) = x"

section \<open>dataUtils: derivation of the scatter sets\<close>

definition minValue :: "OutcomeType \<Rightarrow> real" where
  "minValue currentOutcome = (if currentOutcome = Roads then 0 else 1 / 1000)"

text \<open>The predicate of the \<open>filter\<close> call of \<open>filterScatterData\<close>.\<close>

definition scatterValid :: "OutcomeType \<Rightarrow> MergedDistrictData \<Rightarrow> bool" where
  "scatterValid currentOutcome d =
     (let v = outcomeValue d currentOutcome in
      distance d \<noteq> None \<and>
      (case v of None \<Rightarrow> False | Some x \<Rightarrow> minValue currentOutcome \<le> x))"

definition flippedDistance :: "MergedDistrictData \<Rightarrow> real" where
  "flippedDistance d =
     (if isInside d then \<bar>asNumber (distance d)\<bar> else - \<bar>asNumber (distance d)\<bar>)"

text \<open>The function of the \<open>map\<close> call of \<open>filterScatterData\<close>: the object spread
  \<open>{...d, scatterX: ..., ...}\<close> extends the record.\<close>

definition toScatterPoint :: "OutcomeType \<Rightarrow> MergedDistrictData \<Rightarrow> ScatterDataPoint" where
  "toScatterPoint currentOutcome d =
     (let rawValue = asNumber (outcomeValue d currentOutcome);
          v = (if currentOutcome = Stunting then rawValue * 100 else rawValue)
      in MergedDistrictData.extend d
           (ScatterDataPoint.fields
              (flippedDistance d)
              v
              (case stunting d of None \<Rightarrow> None | Some s \<Rightarrow> Some (s * 100))
              (consumption d)
              (roads d)))"

definition filterScatterData ::
  "MergedDistrictData list \<Rightarrow> OutcomeType \<Rightarrow> ScatterDataPoint list" where
  "filterScatterData mergedData currentOutcome =
     map (toScatterPoint currentOutcome) (filter (scatterValid currentOutcome) mergedData)"


text \<open>\<open>getAllScatterData\<close>: every district with a distance and any valid outcome.\<close>

definition anyOutcomeValid :: "MergedDistrictData \<Rightarrow> bool" where
  "anyOutcomeValid d =
     (distance d \<noteq> None \<and>
      ((case stunting d of None \<Rightarrow> False | Some s \<Rightarrow> 0 < s) \<or>
       (case consumption d of None \<Rightarrow> False | Some c \<Rightarrow> 0 < c) \<or>
       (case roads d of None \<Rightarrow> False | Some r \<Rightarrow> 0 \<le> r)))"

definition toAllScatterPoint :: "MergedDistrictData \<Rightarrow> ScatterDataPoint" where
  "toAllScatterPoint d =
     MergedDistrictData.extend d
       (ScatterDataPoint.fields
          (flippedDistance d)
          0
          (case stunting d of None \<Rightarrow> None | Some s \<Rightarrow> if 0 < s then Some (s * 100) else None)
          (case consumption d of None \<Rightarrow> None | Some c \<Rightarrow> if 0 < c then Some c else None)
          (case roads d of None \<Rightarrow> None | Some r \<Rightarrow> if 0 \<le> r then Some r else None))"

definition getAllScatterData :: "MergedDistrictData list \<Rightarrow> ScatterDataPoint list" where
  "getAllScatterData mergedData = map toAllScatterPoint (filter anyOutcomeValid mergedData)"

fun getOutcomeY :: "ScatterDataPoint \<Rightarrow> OutcomeType \<Rightarrow> real option" where
  "getOutcomeY d Stunting = stuntingY d"
| "getOutcomeY d Consumption = consumptionY d"
| "getOutcomeY d Roads = roadsY d"

subsection \<open>mergeData\<close>

text \<open>
  The two JSON tables and their row types are not part of the sources at hand; the rows
  carry the fields that \<open>mergeData\<close> reads. Every field of an outcome row that is read
  through \<open>??\<close> is optional. \<open>d3.polygonCentroid\<close> is a library function and is a
  parameter here.
\<close>

record DistrictPolygon =
  poly_ubigeo :: int
  poly_mita :: int
  poly_polygon :: "vertex list"

record DistrictData =
  row_ubigeo :: int
  row_distance :: "real option"
  row_isInside :: "bool option"
  row_consumption :: "real option"
  row_stunting :: "real option"
  row_roads :: "real option"

text \<open>\<open>outcomeMap.set\<close> for every row in order: a later row replaces an earlier one.\<close>

definition outcomeMapOf :: "DistrictData list \<Rightarrow> (int \<rightharpoonup> DistrictData)" where
  "outcomeMapOf rows = fold (\<lambda>d m. m(row_ubigeo d \<mapsto> d)) rows Map.empty"

definition mergeRow ::
  "(vertex list \<Rightarrow> real \<times> real) \<Rightarrow> (int \<rightharpoonup> DistrictData) \<Rightarrow> DistrictPolygon \<Rightarrow> MergedDistrictData"
where
  "mergeRow polygonCentroid outcomeMap poly =
     (let outcome = outcomeMap (poly_ubigeo poly);
          centroid = polygonCentroid (map (\<lambda>p. (snd p, fst p)) (poly_polygon poly))
      in \<lparr> ubigeo = poly_ubigeo poly,
           mita = poly_mita poly,
           polygon = poly_polygon poly,
           centroidLon = fst centroid,
           centroidLat = snd centroid,
           distance = (case outcome of None \<Rightarrow> None | Some r \<Rightarrow> row_distance r),
           isInside = (case outcome of None \<Rightarrow> poly_mita poly = 1
                       | Some r \<Rightarrow> (case row_isInside r of None \<Rightarrow> poly_mita poly = 1
                                    | Some b \<Rightarrow> b)),
           consumption = (case outcome of None \<Rightarrow> None | Some r \<Rightarrow> row_consumption r),
           stunting = (case outcome of None \<Rightarrow> None | Some r \<Rightarrow> row_stunting r),
           roads = (case outcome of None \<Rightarrow> None | Some r \<Rightarrow> row_roads r) \<rparr>)"

definition mergeData ::
  "(vertex list \<Rightarrow> real \<times> real) \<Rightarrow> DistrictPolygon list \<Rightarrow> DistrictData list
     \<Rightarrow> MergedDistrictData list" where
  "mergeData polygonCentroid districtPolygons mitaData =
     map (mergeRow polygonCentroid (outcomeMapOf mitaData)) districtPolygons"

section \<open>dataUtils: boundary districts\<close>

definition VERTEX_TOLERANCE :: real where
  "VERTEX_TOLERANCE = 1 / 1000"

definition verticesMatch :: "vertex \<Rightarrow> vertex \<Rightarrow> bool" where
  "verticesMatch v1 v2 =
     (\<bar>fst v1 - fst v2\<bar> < VERTEX_TOLERANCE \<and> \<bar>snd v1 - snd v2\<bar> < VERTEX_TOLERANCE)"

text \<open>
  The bounding box starts from \<open>Infinity\<close> and \<open>-Infinity\<close>, so its coordinates are
  reals extended by the two infinities, with the operations the code applies to them.
\<close>

datatype xreal = NegInfinity | Finite real | Infinity

fun xmin :: "xreal \<Rightarrow> real \<Rightarrow> xreal" where
  "xmin NegInfinity x = NegInfinity"
| "xmin (Finite a) x = Finite (min a x)"
| "xmin Infinity x = Finite x"

fun xmax :: "xreal \<Rightarrow> real \<Rightarrow> xreal" where
  "xmax NegInfinity x = Finite x"
| "xmax (Finite a) x = Finite (max a x)"
| "xmax Infinity x = Infinity"

fun xadd :: "xreal \<Rightarrow> real \<Rightarrow> xreal" where
  "xadd NegInfinity x = NegInfinity"
| "xadd (Finite a) x = Finite (a + x)"
| "xadd Infinity x = Infinity"

fun xless :: "xreal \<Rightarrow> xreal \<Rightarrow> bool" where
  "xless NegInfinity NegInfinity = False"
| "xless NegInfinity _ = True"
| "xless (Finite a) (Finite b) = (a < b)"
| "xless (Finite a) Infinity = True"
| "xless (Finite a) NegInfinity = False"
| "xless Infinity _ = False"

record BBox =
  minLat :: xreal
  maxLat :: xreal
  minLon :: xreal
  maxLon :: xreal

fun bboxLoop :: "vertex list \<Rightarrow> BBox \<Rightarrow> BBox" where
  "bboxLoop [] b = b"
| "bboxLoop ((lat, lon) # poly) b =
     bboxLoop poly \<lparr> minLat = xmin (minLat b) lat, maxLat = xmax (maxLat b) lat,
                     minLon = xmin (minLon b) lon, maxLon = xmax (maxLon b) lon \<rparr>"

definition getBBox :: "vertex list \<Rightarrow> BBox" where
  "getBBox poly =
     bboxLoop poly \<lparr> minLat = Infinity, maxLat = NegInfinity,
                     minLon = Infinity, maxLon = NegInfinity \<rparr>"

definition bboxDisjoint :: "BBox \<Rightarrow> BBox \<Rightarrow> bool" where
  "bboxDisjoint bbox1 bbox2 =
     (let tol = VERTEX_TOLERANCE * 2 in
      xless (xadd (maxLat bbox1) tol) (minLat bbox2) \<or>
      xless (xadd (maxLat bbox2) tol) (minLat bbox1) \<or>
      xless (xadd (maxLon bbox1) tol) (minLon bbox2) \<or>
      xless (xadd (maxLon bbox2) tol) (minLon bbox1))"

text \<open>
  The nested loops over the vertices with the running \<open>sharedCount\<close>: \<open>Inl True\<close> is the
  early \<open>return true\<close>, \<open>Inr c\<close> the count after the inner loop has run through.
\<close>

fun innerLoop :: "vertex \<Rightarrow> vertex list \<Rightarrow> nat \<Rightarrow> bool + nat" where
  "innerLoop v1 [] sharedCount = Inr sharedCount"
| "innerLoop v1 (v2 # poly2) sharedCount =
     (if verticesMatch v1 v2
      then (if 2 \<le> sharedCount + 1 then Inl True else innerLoop v1 poly2 (sharedCount + 1))
      else innerLoop v1 poly2 sharedCount)"

fun outerLoop :: "vertex list \<Rightarrow> vertex list \<Rightarrow> nat \<Rightarrow> bool" where
  "outerLoop [] poly2 sharedCount = False"
| "outerLoop (v1 # poly1) poly2 sharedCount =
     (case innerLoop v1 poly2 sharedCount of
        Inl b \<Rightarrow> b
      | Inr c \<Rightarrow> outerLoop poly1 poly2 c)"

definition polygonsShareEdge :: "vertex list \<Rightarrow> vertex list \<Rightarrow> bool" where
  "polygonsShareEdge poly1 poly2 =
     (if bboxDisjoint (getBBox poly1) (getBBox poly2) then False
      else outerLoop poly1 poly2 0)"

text \<open>
  \<open>computeBoundaryDistricts\<close>: the \<open>Set<number>\<close> is a set of ubigeos; the two
  \<open>for\<close> loops are folds over the two filtered lists.
\<close>

definition addIfBordering ::
  "MergedDistrictData \<Rightarrow> MergedDistrictData \<Rightarrow> int set \<Rightarrow> int set" where
  "addIfBordering m nonMita boundaryUbigeos =
     (if polygonsShareEdge (polygon m) (polygon nonMita)
      then insert (ubigeo nonMita) (insert (ubigeo m) boundaryUbigeos)
      else boundaryUbigeos)"

definition computeBoundaryDistricts :: "MergedDistrictData list \<Rightarrow> int set" where
  "computeBoundaryDistricts mergedData =
     (let mitaDistricts = filter (\<lambda>d. mita d = 1) mergedData;
          nonMitaDistricts = filter (\<lambda>d. mita d = 0) mergedData
      in fold (\<lambda>m acc. fold (addIfBordering m) nonMitaDistricts acc) mitaDistricts {})"

text \<open>The number of vertex pairs \<open>(v1, v2)\<close> of two polygons that match within the
  tolerance (a counting specification the loops are compared with).\<close>

definition matchingPairs :: "vertex list \<Rightarrow> vertex list \<Rightarrow> nat" where
  "matchingPairs poly1 poly2 =
     length (filter (\<lambda>(v1, v2). verticesMatch v1 v2) (List.product poly1 poly2))"

text \<open>
  The number of shared vertices in the words of the code's comments (\<open>at least 2 shared
  vertices = shared edge\<close>): the distinct vertices of the first polygon that match some
  vertex of the second. A vertex that a ring lists twice, as its first and its last, is
  one vertex here and two occurrences for \<open>matchingPairs\<close>.
\<close>

definition sharedVertexCount :: "vertex list \<Rightarrow> vertex list \<Rightarrow> nat" where
  "sharedVertexCount poly1 poly2 =
     length (remdups (filter (\<lambda>v1. list_ex (verticesMatch v1) poly2) poly1))"


section \<open>Scales, projection and constants\<close>

text \<open>
  A \<open>d3.GeoProjection\<close> maps \<open>[lon, lat]\<close> to a pixel pair or to \<open>null\<close>. A
  \<open>d3.ScaleLinear\<close> is used through its call and through \<open>range()\<close> only.
\<close>

type_synonym GeoProjection = "real \<times> real \<Rightarrow> (real \<times> real) option"

record ScaleLinear =
  scaleRange :: "real \<times> real"
  scaleCall :: "real \<Rightarrow> real"

text \<open>
  Modelled from the spec: \<open>createXScale\<close> of \<open>scaleUtils\<close> is not among the sources
  (its tests are). Section 4.3: the distance scale is linear, with the fixed domain
  \<open>[-50, 50]\<close> mapped to \<open>[0, innerWidth]\<close>, clamped at evaluation time, so that an
  input outside the domain goes to the nearest range endpoint.
\<close>

definition createXScale :: "real \<Rightarrow> ScaleLinear" where
  "createXScale innerWidth =
     \<lparr> scaleRange = (0, innerWidth),
       scaleCall = (\<lambda>x. let c = max (- 50) (min 50 x);
                             u = (c - (- 50)) / (50 - (- 50))
                         in 0 + (innerWidth - 0) * u) \<rparr>"

text \<open>
  The constants \<open>MORPH_TIMING\<close> and \<open>OPACITY\<close> (module \<open>constants\<close>) and
  \<open>DEFAULT_MARGIN\<close> are not among the sources; the renderers take them as parameters.
\<close>

record MorphTiming =
  morphStart :: real
  morphEnd :: real
  dotFadeStart :: real
  dotFadeEnd :: real

record Opacity =
  opacityDot :: real

record Margin =
  marginTop :: real
  marginRight :: real
  marginBottom :: real
  marginLeft :: real

section \<open>The scene: containers and visual primitives\<close>

text \<open>
  A selection handed to a renderer is either the \<open>svg\<close> root or the group of class
  \<open>main-group\<close>. A primitive records the container it is appended to, its class, the
  key of its datum, its own \<open>transform\<close> attribute (if it sets one), its geometry and
  its target opacity. Fill, stroke, cursor and the hover handlers are left out.
  \<open>PathD []\<close> is the empty path string \<open>''\<close>; \<open>GeoPath ring\<close> is the string that
  \<open>d3.geoPath().projection(projection)\<close> yields for the ring.
\<close>

datatype container = SvgRoot | MainGroup

datatype shape =
    Circle real real real
  | PathD "(real \<times> real) list"
  | GeoPath "(real \<times> real) list"
  | Group
  | Other

record primitive =
  parent :: container
  cls :: string
  datum :: "int option"
  ownTranslate :: "(real \<times> real) option"
  shape :: shape
  opacity :: real

section \<open>MorphRenderer\<close>

definition easeInOutQuad :: "real \<Rightarrow> real" where
  "easeInOutQuad t = (if t < 1 / 2 then 2 * t * t else 1 - (- 2 * t + 2) ^ 2 / 2)"

text \<open>\<open>Math.atan2(y, x)\<close> on reals (no signed zero).\<close>

definition atan2 :: "real \<Rightarrow> real \<Rightarrow> real" where
  "atan2 y x =
     (if 0 < x then arctan (y / x)
      else if x < 0 \<and> 0 \<le> y then arctan (y / x) + pi
      else if x < 0 \<and> y < 0 then arctan (y / x) - pi
      else if 0 < y then pi / 2
      else if y < 0 then - (pi / 2)
      else 0)"

definition renderFadingDistricts ::
  "container \<Rightarrow> GeoProjection \<Rightarrow> MergedDistrictData list \<Rightarrow> int set \<Rightarrow> real \<Rightarrow> primitive list"
where
  "renderFadingDistricts g projection mergedData scatterUbigeos easedMorphT =
     (let fadeOpacity = max 0 (1 / 2 - easedMorphT * (8 / 10));
          districtsWithoutData = filter (\<lambda>d. ubigeo d \<notin> scatterUbigeos) mergedData
      in map (\<lambda>d. \<lparr> parent = g, cls = ''fading-district'', datum = Some (ubigeo d),
                     ownTranslate = None,
                     shape = GeoPath (map (\<lambda>p. (snd p, fst p)) (polygon d)),
                     opacity = fadeOpacity \<rparr>)
             districtsWithoutData)"

text \<open>The \<open>cx\<close> and \<open>cy\<close> callbacks of \<open>renderOutcomeTransition\<close>.\<close>

definition transitionCx :: "ScaleLinear \<Rightarrow> ScatterDataPoint \<Rightarrow> real" where
  "transitionCx xScale d = max 0 (min (snd (scaleRange xScale)) (scaleCall xScale (scatterX d)))"

definition transitionCy ::
  "ScaleLinear \<Rightarrow> real \<Rightarrow> OutcomeType \<Rightarrow> ScatterDataPoint \<Rightarrow> real" where
  "transitionCy yScale innerHeight currentOutcome d =
     (case getOutcomeY d currentOutcome of
        Some yVal \<Rightarrow> max 0 (min (fst (scaleRange yScale)) (scaleCall yScale yVal))
      | None \<Rightarrow> innerHeight / 2)"

definition renderOutcomeTransition ::
  "Opacity \<Rightarrow> container \<Rightarrow> ScatterDataPoint list \<Rightarrow> ScaleLinear \<Rightarrow> ScaleLinear \<Rightarrow> real
     \<Rightarrow> OutcomeType \<Rightarrow> primitive list" where
  "renderOutcomeTransition OPACITY g allScatterData xScale yScale innerHeight currentOutcome =
     map (\<lambda>d. \<lparr> parent = g, cls = ''morph-dot'', datum = Some (ubigeo d),
                 ownTranslate = None,
                 shape = Circle (transitionCx xScale d)
                                (transitionCy yScale innerHeight currentOutcome d) 5,
                 opacity = (if getOutcomeY d currentOutcome \<noteq> None
                            then opacityDot OPACITY else 0) \<rparr>)
         allScatterData"

text \<open>The \<open>d\<close> callback of \<open>renderMorphingDistricts\<close>; the result is the list of
  the points of the path \<open>M ... L ... Z\<close>, empty for the empty string.\<close>

definition morphedDistrictPath ::
  "GeoProjection \<Rightarrow> ScaleLinear \<Rightarrow> ScaleLinear \<Rightarrow> real \<Rightarrow> ScatterDataPoint
     \<Rightarrow> (real \<times> real) list" where
  "morphedDistrictPath projection xScale yScale easedMorphT d =
     (let districtScale = 1 - easedMorphT; roundness = easedMorphT in
      case projection (centroidLon d, centroidLat d) of
        None \<Rightarrow> []
      | Some centroid \<Rightarrow>
         (let targetX = scaleCall xScale (scatterX d);
              targetY = scaleCall yScale (scatterY d);
              currentCenterX = fst centroid + (targetX - fst centroid) * easedMorphT;
              currentCenterY = snd centroid + (targetY - snd centroid) * easedMorphT;
              projectedPoints = List.map_filter (\<lambda>p. projection (snd p, fst p)) (polygon d)
          in if length projectedPoints < 3 then []
             else
              (let avgRadius =
                     fold (\<lambda>p sum.
                             (let dx = fst p - fst centroid; dy = snd p - snd centroid
                              in sum + sqrt (dx * dx + dy * dy)))
                          projectedPoints 0
                     / real (length projectedPoints);
                   targetRadius = 5 + (avgRadius - 5) * districtScale
               in map (\<lambda>projected.
                         (let dx = fst projected - fst centroid;
                              dy = snd projected - snd centroid;
                              angle = atan2 dy dx;
                              circleX = cos angle * targetRadius;
                              circleY = sin angle * targetRadius;
                              blendedX = dx * (1 - roundness) * districtScale
                                         + circleX * roundness * districtScale;
                              blendedY = dy * (1 - roundness) * districtScale
                                         + circleY * roundness * districtScale
                          in (currentCenterX + blendedX, currentCenterY + blendedY)))
                      projectedPoints)))"

definition renderMorphingDistricts ::
  "Opacity \<Rightarrow> container \<Rightarrow> GeoProjection \<Rightarrow> ScatterDataPoint list \<Rightarrow> ScaleLinear
     \<Rightarrow> ScaleLinear \<Rightarrow> real \<Rightarrow> primitive list" where
  "renderMorphingDistricts OPACITY g projection scatterData xScale yScale easedMorphT =
     map (\<lambda>d. \<lparr> parent = g, cls = ''morphing-district'', datum = Some (ubigeo d),
                 ownTranslate = None,
                 shape = PathD (morphedDistrictPath projection xScale yScale easedMorphT d),
                 opacity = opacityDot OPACITY * (1 - easedMorphT * (3 / 10)) \<rparr>)
         scatterData"

text \<open>The \<open>cx\<close> and \<open>cy\<close> callbacks of \<open>renderMorphingDots\<close>.\<close>

definition morphDotCx ::
  "GeoProjection \<Rightarrow> ScaleLinear \<Rightarrow> real \<Rightarrow> ScatterDataPoint \<Rightarrow> real" where
  "morphDotCx projection xScale easedMorphT d =
     (let geoCoord = projection (centroidLon d, centroidLat d);
          mapX = (case geoCoord of Some c \<Rightarrow> fst c | None \<Rightarrow> 0);
          sx = scaleCall xScale (scatterX d);
          interpolatedX = mapX + (sx - mapX) * easedMorphT
      in max 0 (min (snd (scaleRange xScale)) interpolatedX))"

definition morphDotCy ::
  "GeoProjection \<Rightarrow> ScaleLinear \<Rightarrow> real \<Rightarrow> ScatterDataPoint \<Rightarrow> real" where
  "morphDotCy projection yScale easedMorphT d =
     (let geoCoord = projection (centroidLon d, centroidLat d);
          mapY = (case geoCoord of Some c \<Rightarrow> snd c | None \<Rightarrow> 0);
          sy = scaleCall yScale (scatterY d);
          interpolatedY = mapY + (sy - mapY) * easedMorphT
      in max 0 (min (fst (scaleRange yScale)) interpolatedY))"

definition renderMorphingDots ::
  "MorphTiming \<Rightarrow> Opacity \<Rightarrow> container \<Rightarrow> GeoProjection \<Rightarrow> ScatterDataPoint list
     \<Rightarrow> ScaleLinear \<Rightarrow> ScaleLinear \<Rightarrow> real \<Rightarrow> real \<Rightarrow> primitive list" where
  "renderMorphingDots MORPH_TIMING OPACITY g projection scatterData xScale yScale morphT easedMorphT =
     (if morphT \<le> dotFadeStart MORPH_TIMING then []
      else
       (let dotOpacity = min 1 ((morphT - dotFadeStart MORPH_TIMING)
                                 / (dotFadeEnd MORPH_TIMING - dotFadeStart MORPH_TIMING));
            dotRadius = 5 * easedMorphT
        in map (\<lambda>d. \<lparr> parent = g, cls = ''morph-dot'', datum = Some (ubigeo d),
                       ownTranslate = None,
                       shape = Circle (morphDotCx projection xScale easedMorphT d)
                                      (morphDotCy projection yScale easedMorphT d)
                                      dotRadius,
                       opacity = dotOpacity * opacityDot OPACITY \<rparr>)
               scatterData))"

definition renderFullScatterDots ::
  "Opacity \<Rightarrow> container \<Rightarrow> ScatterDataPoint list \<Rightarrow> ScaleLinear \<Rightarrow> ScaleLinear
     \<Rightarrow> primitive list" where
  "renderFullScatterDots OPACITY g scatterData xScale yScale =
     map (\<lambda>d. \<lparr> parent = g, cls = ''morph-dot'', datum = Some (ubigeo d),
                 ownTranslate = None,
                 shape = Circle
                   (max 0 (min (snd (scaleRange xScale)) (scaleCall xScale (scatterX d))))
                   (max 0 (min (fst (scaleRange yScale)) (scaleCall yScale (scatterY d))))
                   5,
                 opacity = opacityDot OPACITY \<rparr>)
         scatterData"

definition renderMorph ::
  "MorphTiming \<Rightarrow> Opacity \<Rightarrow> container \<Rightarrow> container \<Rightarrow> GeoProjection \<Rightarrow> ScaleLinear
     \<Rightarrow> ScaleLinear \<Rightarrow> MergedDistrictData list \<Rightarrow> ScatterDataPoint list
     \<Rightarrow> ScatterDataPoint list \<Rightarrow> int set \<Rightarrow> real \<Rightarrow> OutcomeType \<Rightarrow> Margin \<Rightarrow> real
     \<Rightarrow> bool \<Rightarrow> bool \<Rightarrow> primitive list" where
  "renderMorph MORPH_TIMING OPACITY g svg projection xScale yScale mergedData scatterData
     allScatterData scatterUbigeos morphT currentOutcome margin innerHeight
     isOutcomeTransition isPhaseTransition =
     (let easedMorphT = easeInOutQuad morphT in
      (if morphT < 1
       then renderFadingDistricts g projection mergedData scatterUbigeos easedMorphT
       else [])
      @
      (if 1 \<le> morphT \<and> isOutcomeTransition then
         renderOutcomeTransition OPACITY g allScatterData xScale yScale innerHeight currentOutcome
       else if 1 \<le> morphT \<and> isPhaseTransition then
         renderFullScatterDots OPACITY g scatterData xScale yScale
       else if morphT < 1 then
         renderMorphingDistricts OPACITY g projection scatterData xScale yScale easedMorphT
         @ renderMorphingDots MORPH_TIMING OPACITY g projection scatterData xScale yScale
             morphT easedMorphT
       else
         renderFullScatterDots OPACITY g scatterData xScale yScale))"


section \<open>UnifiedViz: transition detection and path dispatch of the render effect\<close>

datatype ScatterPhase = Dots | Ols | NaiveEffect | Effect

text \<open>
  The two refs hold strings; \<open>None\<close> stands for the empty string \<open>''\<close> the code
  compares them with, \<open>Some x\<close> for the name of \<open>x\<close>.
\<close>

record SceneRefs =
  prevOutcomeRef :: "OutcomeType option"
  prevScatterPhaseRef :: "ScatterPhase option"

definition isOutcomeOnlyTransition :: "real \<Rightarrow> SceneRefs \<Rightarrow> OutcomeType \<Rightarrow> bool" where
  "isOutcomeOnlyTransition t refs currentOutcome =
     (1 \<le> t \<and> prevOutcomeRef refs \<noteq> Some currentOutcome \<and> prevOutcomeRef refs \<noteq> None)"

definition isPhaseTransition :: "real \<Rightarrow> SceneRefs \<Rightarrow> ScatterPhase \<Rightarrow> bool" where
  "isPhaseTransition t refs scatterPhase =
     (1 \<le> t \<and> prevScatterPhaseRef refs \<noteq> Some scatterPhase \<and> prevScatterPhaseRef refs \<noteq> None)"

text \<open>The sub-progress handed to \<open>renderMorph\<close>.\<close>

definition morphTOf :: "MorphTiming \<Rightarrow> real \<Rightarrow> real" where
  "morphTOf MORPH_TIMING t =
     min ((t - morphStart MORPH_TIMING) / (morphEnd MORPH_TIMING - morphStart MORPH_TIMING)) 1"

text \<open>The refs after a render pass: the phase ref is written only at full scatter.\<close>

definition refsAfterRender ::
  "real \<Rightarrow> SceneRefs \<Rightarrow> OutcomeType \<Rightarrow> ScatterPhase \<Rightarrow> SceneRefs" where
  "refsAfterRender t refs currentOutcome scatterPhase =
     \<lparr> prevOutcomeRef = Some currentOutcome,
       prevScatterPhaseRef = (if 1 \<le> t then Some scatterPhase else prevScatterPhaseRef refs) \<rparr>"

text \<open>
  The five render paths. \<open>morphBranch\<close> names the branch that the \<open>if\<close> chain of
  \<open>renderMorph\<close> takes; \<open>renderPath\<close> puts the test \<open>t < 0.3\<close> of the render effect
  in front of it.
\<close>

datatype RenderPath =
  MapPath | OutcomeTransitionPath | PhaseSettlePath | MorphingPath | FullScatterPath

definition morphBranch :: "real \<Rightarrow> bool \<Rightarrow> bool \<Rightarrow> RenderPath" where
  "morphBranch morphT isOutcomeTransition isPhaseTrans =
     (if 1 \<le> morphT \<and> isOutcomeTransition then OutcomeTransitionPath
      else if 1 \<le> morphT \<and> isPhaseTrans then PhaseSettlePath
      else if morphT < 1 then MorphingPath
      else FullScatterPath)"

definition renderPath ::
  "MorphTiming \<Rightarrow> SceneRefs \<Rightarrow> real \<Rightarrow> OutcomeType \<Rightarrow> ScatterPhase \<Rightarrow> RenderPath" where
  "renderPath MORPH_TIMING refs t currentOutcome scatterPhase =
     (if t < 3 / 10 then MapPath
      else morphBranch (morphTOf MORPH_TIMING t)
             (isOutcomeOnlyTransition t refs currentOutcome)
             (isPhaseTransition t refs scatterPhase))"

section \<open>Notions of the spec that the renderer is compared with\<close>







section \<open>Concrete inputs\<close>

definition exampleTiming :: MorphTiming where
  "exampleTiming = \<lparr> morphStart = 3 / 10, morphEnd = 1, dotFadeStart = 1 / 2, dotFadeEnd = 4 / 5 \<rparr>"

definition exampleOpacity :: Opacity where
  "exampleOpacity = \<lparr> opacityDot = 4 / 5 \<rparr>"

definition exampleMargin :: Margin where
  "exampleMargin = \<lparr> marginTop = 40, marginRight = 30, marginBottom = 50, marginLeft = 60 \<rparr>"

definition district7 :: MergedDistrictData where
  "district7 = \<lparr> ubigeo = 7, mita = 1,
                 polygon = [(0, 0), (0, 1), (1, 1), (1, 0), (0, 0)],
                 centroidLon = 1 / 2, centroidLat = 1 / 2,
                 distance = Some 25, isInside = True,
                 consumption = Some 0, stunting = Some (12 / 100), roads = Some 0 \<rparr>"

definition district9 :: MergedDistrictData where
  "district9 = \<lparr> ubigeo = 9, mita = 0,
                 polygon = [(0, 1), (0, 2), (1, 2), (1, 1), (0, 1)],
                 centroidLon = 3 / 2, centroidLat = 1 / 2,
                 distance = Some 40, isInside = False,
                 consumption = None, stunting = Some 0, roads = None \<rparr>"

definition district11 :: MergedDistrictData where
  "district11 = \<lparr> ubigeo = 11, mita = 0,
                  polygon = [(1, 0), (2, 0), (2, 1), (3, 3)],
                  centroidLon = 1 / 2, centroidLat = 3 / 2,
                  distance = None, isInside = False,
                  consumption = Some 5, stunting = Some (1 / 5), roads = Some 3 \<rparr>"

text \<open>Two districts of opposite flag whose closed rings touch in the one point
  \<open>(0, 0)\<close>, the first and last vertex of both rings.\<close>

definition cornerMita :: MergedDistrictData where
  "cornerMita = \<lparr> ubigeo = 21, mita = 1,
                  polygon = [(0, 0), (0, 1), (1, 1), (0, 0)],
                  centroidLon = 2 / 3, centroidLat = 1 / 3,
                  distance = None, isInside = True,
                  consumption = None, stunting = None, roads = None \<rparr>"

definition cornerNonMita :: MergedDistrictData where
  "cornerNonMita = \<lparr> ubigeo = 22, mita = 0,
                     polygon = [(0, 0), (0, - 1), (- 1, - 1), (0, 0)],
                     centroidLon = - 2 / 3, centroidLat = - 1 / 3,
                     distance = None, isInside = False,
                     consumption = None, stunting = None, roads = None \<rparr>"



definition point7 :: ScatterDataPoint where
  "point7 = toScatterPoint Stunting district7"

definition point9 :: ScatterDataPoint where
  "point9 = toScatterPoint Stunting (district9 \<lparr> stunting := Some (3 / 10) \<rparr>)"

definition exampleRefs :: SceneRefs where
  "exampleRefs = \<lparr> prevOutcomeRef = Some Stunting, prevScatterPhaseRef = Some Dots \<rparr>"

text \<open>A linear outcome scale with domain \<open>[0, 100]\<close> and range \<open>[410, 0]\<close>.\<close>

definition exampleYScale :: ScaleLinear where
  "exampleYScale = \<lparr> scaleRange = (410, 0), scaleCall = (\<lambda>y. 410 - 410 * (y / 100)) \<rparr>"

text \<open>A projection that puts every point left of and above the plot, one that puts every
  point inside it, and one that fails at \<open>[0.5, 0.5]\<close>, the centroid of district 7.\<close>

definition outsideProjection :: GeoProjection where
  "outsideProjection = (\<lambda>p. Some (- 1000, - 1000))"


definition failingProjection :: GeoProjection where
  "failingProjection = (\<lambda>p. if p = (1 / 2, 1 / 2) then None else Some (100, 200))"



section \<open>Properties of the data derivation\<close>

lemma truncate_toScatterPoint: "MergedDistrictData.truncate (toScatterPoint oc d) = d"
  by (simp add: toScatterPoint_def MergedDistrictData.truncate_def
      MergedDistrictData.extend_def Let_def)

lemma scatterValid_iff:
  "scatterValid oc d \<longleftrightarrow>
     (\<exists>dist v. distance d = Some dist \<and> outcomeValue d oc = Some v \<and> minValue oc \<le> v)"
  by (auto simp: scatterValid_def Let_def split: option.splits)

lemma scatterX_toScatterPoint: "scatterX (toScatterPoint oc d) = flippedDistance d"
  and isInside_toScatterPoint: "isInside (toScatterPoint oc d) = isInside d"
  and distance_toScatterPoint: "distance (toScatterPoint oc d) = distance d"
  and ubigeo_toScatterPoint: "ubigeo (toScatterPoint oc d) = ubigeo d"
  by (simp_all add: toScatterPoint_def MergedDistrictData.extend_def
      ScatterDataPoint.fields_def Let_def)

text \<open>
  Where the outcome table has no row for a polygon, or a row without \<open>isInside\<close>,
  \<open>mergeData\<close> derives \<open>isInside\<close> from the polygon's \<open>mita\<close> flag; otherwise it
  takes the row's own \<open>isInside\<close>.
\<close>

lemma mergeRow_isInside:
  "isInside (mergeRow polygonCentroid outcomeMap poly) =
     (case outcomeMap (poly_ubigeo poly) of
        None \<Rightarrow> poly_mita poly = 1
      | Some r \<Rightarrow> (case row_isInside r of None \<Rightarrow> poly_mita poly = 1 | Some b \<Rightarrow> b))"
  by (simp add: mergeRow_def Let_def)

text \<open>
  Claim C8. A district of the merged table appears in the outcome-filtered scatter set
  \<open>filterScatterData data o\<close> (as the record the scatter point extends) if and only if
  its distance is non-null, its value for \<open>o\<close> is non-null, and the value passes the
  zero rule of \<open>o\<close>: for roads a value of \<open>0\<close> or more qualifies, for stunting and
  consumption the value must be at least \<open>0.001\<close>, so that a zero excludes the district.
\<close>

theorem filterScatterData_membership:
  "(d \<in> MergedDistrictData.truncate ` set (filterScatterData mergedData currentOutcome)) \<longleftrightarrow>
     (d \<in> set mergedData \<and>
      (\<exists>dist v. distance d = Some dist \<and> outcomeValue d currentOutcome = Some v \<and>
         (if currentOutcome = Roads then 0 \<le> v else 1 / 1000 \<le> v)))"
proof -
  have "MergedDistrictData.truncate ` set (filterScatterData mergedData currentOutcome)
        = {d \<in> set mergedData. scatterValid currentOutcome d}"
    by (auto simp: filterScatterData_def truncate_toScatterPoint image_iff)
  then show ?thesis
    by (auto simp: scatterValid_iff minValue_def)
qed

text \<open>
  District 7 has stunting \<open>0.12\<close>, consumption \<open>0\<close> and roads \<open>0\<close>: it is in the
  stunting and the roads set and not in the consumption set. District 9 has stunting \<open>0\<close>
  and is not in the stunting set.
\<close>

theorem filterScatterData_membership_witness:
  "district7 \<in> MergedDistrictData.truncate `
      set (filterScatterData [district7, district9, district11] Stunting) \<and>
   district9 \<notin> MergedDistrictData.truncate `
      set (filterScatterData [district7, district9, district11] Stunting) \<and>
   district7 \<in> MergedDistrictData.truncate `
      set (filterScatterData [district7, district9, district11] Roads) \<and>
   district7 \<notin> MergedDistrictData.truncate `
      set (filterScatterData [district7, district9, district11] Consumption)"
  using filterScatterData_membership [of district7 "[district7, district9, district11]" Stunting]
  by (simp add: filterScatterData_def scatterValid_def minValue_def truncate_toScatterPoint
      district7_def district9_def district11_def)

lemma scatterX_toAllScatterPoint: "scatterX (toAllScatterPoint d) = flippedDistance d"
  and isInside_toAllScatterPoint: "isInside (toAllScatterPoint d) = isInside d"
  and distance_toAllScatterPoint: "distance (toAllScatterPoint d) = distance d"
  and ubigeo_toAllScatterPoint: "ubigeo (toAllScatterPoint d) = ubigeo d"
  by (simp_all add: toAllScatterPoint_def MergedDistrictData.extend_def
      ScatterDataPoint.fields_def)

lemma anyOutcomeValid_distance: "anyOutcomeValid d \<Longrightarrow> \<exists>dist. distance d = Some dist"
  by (auto simp: anyOutcomeValid_def)

text \<open>
  Claim C3. For every point of a derived scatter set, the outcome-filtered one of
  \<open>filterScatterData\<close> and the full one of \<open>getAllScatterData\<close> alike, \<open>scatterX\<close> is
  \<open>abs(distance)\<close> when the district is inside the treatment boundary and
  \<open>-abs(distance)\<close> otherwise; hence a district flagged inside has \<open>scatterX \<ge> 0\<close> and
  one flagged outside has \<open>scatterX \<le> 0\<close>. The flag is the field \<open>isInside\<close>, the one
  the code reads.
\<close>

theorem scatterX_sign:
  "(\<forall>p \<in> set (filterScatterData mergedData currentOutcome).
     (\<exists>dist. distance p = Some dist \<and>
        scatterX p = (if isInside p then \<bar>dist\<bar> else - \<bar>dist\<bar>)) \<and>
     (isInside p \<longrightarrow> 0 \<le> scatterX p) \<and>
     (\<not> isInside p \<longrightarrow> scatterX p \<le> 0)) \<and>
   (\<forall>p \<in> set (getAllScatterData mergedData).
     (\<exists>dist. distance p = Some dist \<and>
        scatterX p = (if isInside p then \<bar>dist\<bar> else - \<bar>dist\<bar>)) \<and>
     (isInside p \<longrightarrow> 0 \<le> scatterX p) \<and>
     (\<not> isInside p \<longrightarrow> scatterX p \<le> 0))"
proof (rule conjI)
  show "\<forall>p \<in> set (filterScatterData mergedData currentOutcome).
     (\<exists>dist. distance p = Some dist \<and>
        scatterX p = (if isInside p then \<bar>dist\<bar> else - \<bar>dist\<bar>)) \<and>
     (isInside p \<longrightarrow> 0 \<le> scatterX p) \<and>
     (\<not> isInside p \<longrightarrow> scatterX p \<le> 0)"
    by (auto simp: filterScatterData_def scatterValid_iff scatterX_toScatterPoint
      isInside_toScatterPoint distance_toScatterPoint flippedDistance_def)
  show "\<forall>p \<in> set (getAllScatterData mergedData).
     (\<exists>dist. distance p = Some dist \<and>
        scatterX p = (if isInside p then \<bar>dist\<bar> else - \<bar>dist\<bar>)) \<and>
     (isInside p \<longrightarrow> 0 \<le> scatterX p) \<and>
     (\<not> isInside p \<longrightarrow> scatterX p \<le> 0)"
    by (auto simp: getAllScatterData_def scatterX_toAllScatterPoint
      isInside_toAllScatterPoint distance_toAllScatterPoint flippedDistance_def
      dest!: anyOutcomeValid_distance)
qed

text \<open>
  District 7 (inside, distance 25, stunting 0.12) gives \<open>scatterX = 25\<close> and
  \<open>scatterY = 12\<close>; district 9 (outside, distance 40) gives \<open>scatterX = -40\<close>; district
  11 has no distance and is in neither set.
\<close>

theorem scatterX_sign_witness:
  "map (\<lambda>p. (ubigeo p, isInside p, scatterX p, scatterY p))
     (filterScatterData [district7, district9 \<lparr> stunting := Some (3 / 10) \<rparr>, district11] Stunting)
     = [(7, True, 25, 12), (9, False, - 40, 30)] \<and>
   map (\<lambda>p. (ubigeo p, isInside p, scatterX p, scatterY p))
     (getAllScatterData [district7, district9 \<lparr> stunting := Some (3 / 10) \<rparr>, district11])
     = [(7, True, 25, 0), (9, False, - 40, 0)]"
  using scatterX_sign [of "[district7, district9 \<lparr> stunting := Some (3 / 10) \<rparr>, district11]" Stunting]
  by (simp add: filterScatterData_def scatterValid_def minValue_def toScatterPoint_def
      getAllScatterData_def anyOutcomeValid_def toAllScatterPoint_def
      flippedDistance_def MergedDistrictData.extend_def ScatterDataPoint.fields_def
      district7_def district9_def district11_def)

section \<open>Properties of the distance scale\<close>

lemma createXScale_call:
  "scaleCall (createXScale w) x = w * ((max (- 50) (min 50 x) + 50) / 100)"
  by (simp add: createXScale_def Let_def)

lemma createXScale_range: "scaleRange (createXScale w) = (0, w)"
  by (simp add: createXScale_def)

text \<open>
  Claim C2. For a width \<open>innerWidth \<ge> 0\<close> and every real \<open>x\<close>, the distance scale
  satisfies \<open>0 \<le> distanceScale(x) \<le> innerWidth\<close>; an input below \<open>-50\<close> goes to
  \<open>0\<close>, one above \<open>50\<close> to \<open>innerWidth\<close>; and \<open>distanceScale(-50) = 0\<close>,
  \<open>distanceScale(0) = innerWidth / 2\<close>, \<open>distanceScale(50) = innerWidth\<close>.
\<close>

theorem createXScale_clamped:
  assumes "0 \<le> innerWidth"
  shows "0 \<le> scaleCall (createXScale innerWidth) x \<and>
         scaleCall (createXScale innerWidth) x \<le> innerWidth \<and>
         (x \<le> - 50 \<longrightarrow> scaleCall (createXScale innerWidth) x = 0) \<and>
         (50 \<le> x \<longrightarrow> scaleCall (createXScale innerWidth) x = innerWidth) \<and>
         scaleCall (createXScale innerWidth) (- 50) = 0 \<and>
         scaleCall (createXScale innerWidth) 0 = innerWidth / 2 \<and>
         scaleCall (createXScale innerWidth) 50 = innerWidth"
proof -
  let ?u = "(max (- 50) (min 50 x) + 50) / 100"
  have u: "0 \<le> ?u" "?u \<le> 1" by auto
  have lo: "0 \<le> innerWidth * ?u" using assms u by simp
  have hi: "innerWidth * ?u \<le> innerWidth" using assms u(2) mult_left_le by blast
  show ?thesis using lo hi
    by (auto simp: createXScale_call)
qed

theorem createXScale_clamped_witness:
  "(0::real) \<le> 610 \<and>
   scaleCall (createXScale 610) (- 60) = 0 \<and>
   scaleCall (createXScale 610) 100 = 610 \<and>
   scaleCall (createXScale 610) 0 = 305 \<and>
   scaleCall (createXScale 610) 25 = 457.5"
  using createXScale_clamped [of 610 "- 60"] createXScale_clamped [of 610 100]
  by (simp add: createXScale_call)


section \<open>Properties of the morph renderer\<close>


lemma clamp_bounds: "0 \<le> (hi::real) \<Longrightarrow> 0 \<le> max 0 (min hi v) \<and> max 0 (min hi v) \<le> hi"
  by auto

lemma morphDotCx_bounds:
  "0 \<le> snd (scaleRange xScale) \<Longrightarrow>
   0 \<le> morphDotCx projection xScale e d \<and> morphDotCx projection xScale e d \<le> snd (scaleRange xScale)"
  unfolding morphDotCx_def Let_def by (rule clamp_bounds)

lemma morphDotCy_bounds:
  "0 \<le> fst (scaleRange yScale) \<Longrightarrow>
   0 \<le> morphDotCy projection yScale e d \<and> morphDotCy projection yScale e d \<le> fst (scaleRange yScale)"
  unfolding morphDotCy_def Let_def by (rule clamp_bounds)

lemma renderMorphingDots_bounds:
  assumes "0 \<le> snd (scaleRange xScale)" and "0 \<le> fst (scaleRange yScale)"
    and "p \<in> set (renderMorphingDots MORPH_TIMING OPACITY g projection scatterData xScale yScale
                     morphT easedMorphT)"
  shows "\<exists>cx cy r. shape p = Circle cx cy r \<and>
              0 \<le> cx \<and> cx \<le> snd (scaleRange xScale) \<and> 0 \<le> cy \<and> cy \<le> fst (scaleRange yScale)"
  using assms morphDotCx_bounds [of xScale projection easedMorphT]
    morphDotCy_bounds [of yScale projection easedMorphT]
  by (auto simp: renderMorphingDots_def Let_def split: if_splits)

lemma cls_renderFadingDistricts:
  "p \<in> set (renderFadingDistricts g projection mergedData su e) \<Longrightarrow> cls p = ''fading-district''"
  by (auto simp: renderFadingDistricts_def Let_def)

lemma cls_renderMorphingDistricts:
  "p \<in> set (renderMorphingDistricts OPACITY g projection sd xs ys e) \<Longrightarrow> cls p = ''morphing-district''"
  by (auto simp: renderMorphingDistricts_def)

lemma renderMorph_morphing:
  "morphT < 1 \<Longrightarrow>
   renderMorph MORPH_TIMING OPACITY g svg projection xScale yScale mergedData scatterData
     allScatterData scatterUbigeos morphT currentOutcome margin innerHeight isOT isPT =
   renderFadingDistricts g projection mergedData scatterUbigeos (easeInOutQuad morphT) @
   renderMorphingDistricts OPACITY g projection scatterData xScale yScale (easeInOutQuad morphT) @
   renderMorphingDots MORPH_TIMING OPACITY g projection scatterData xScale yScale morphT
     (easeInOutQuad morphT)"
  by (simp add: renderMorph_def Let_def)

lemma renderMorph_full:
  "1 \<le> morphT \<Longrightarrow>
   renderMorph MORPH_TIMING OPACITY g svg projection xScale yScale mergedData scatterData
     allScatterData scatterUbigeos morphT currentOutcome margin innerHeight isOT isPT =
   (if isOT then renderOutcomeTransition OPACITY g allScatterData xScale yScale innerHeight
                   currentOutcome
    else renderFullScatterDots OPACITY g scatterData xScale yScale)"
  by (simp add: renderMorph_def Let_def)

lemma point7_fields: "scatterX point7 = 25" "scatterY point7 = 12" "ubigeo point7 = 7"
  "centroidLon point7 = 1/2" "centroidLat point7 = 1/2"
  by (simp_all add: point7_def toScatterPoint_def flippedDistance_def district7_def
      MergedDistrictData.extend_def ScatterDataPoint.fields_def)

lemma ease_06: "easeInOutQuad (3 / 5) = 17 / 25"
  by (simp add: easeInOutQuad_def power2_eq_square)

text \<open>
  Claim C6. With \<open>innerWidth \<ge> 0\<close> and \<open>innerHeight \<ge> 0\<close>, the scales having the
  ranges \<open>[0, innerWidth]\<close> and \<open>[innerHeight, 0]\<close>: in every frame that takes the
  morphing branch of \<open>renderMorph\<close> (\<open>morphT < 1\<close>), every marker (class
  \<open>morph-dot\<close>) is a circle whose center has \<open>0 \<le> cx \<le> innerWidth\<close> and
  \<open>0 \<le> cy \<le> innerHeight\<close>, whatever the projected centroid and the blend are.
\<close>

theorem morphing_markers_within_bounds:
  assumes "0 \<le> innerWidth" and "0 \<le> innerHeight"
    and "snd (scaleRange xScale) = innerWidth" and "fst (scaleRange yScale) = innerHeight"
    and "morphT < 1"
  shows "\<forall>p \<in> set (renderMorph MORPH_TIMING OPACITY g svg projection xScale yScale mergedData
                     scatterData allScatterData scatterUbigeos morphT currentOutcome margin
                     innerHeight isOutcomeTransition isPhaseTrans).
           cls p = ''morph-dot'' \<longrightarrow>
           (\<exists>cx cy r. shape p = Circle cx cy r \<and>
              0 \<le> cx \<and> cx \<le> innerWidth \<and> 0 \<le> cy \<and> cy \<le> innerHeight)"
proof (intro ballI impI)
  fix p
  assume p: "p \<in> set (renderMorph MORPH_TIMING OPACITY g svg projection xScale yScale mergedData
                     scatterData allScatterData scatterUbigeos morphT currentOutcome margin
                     innerHeight isOutcomeTransition isPhaseTrans)"
    and c: "cls p = ''morph-dot''"
  from p c assms(5) have "p \<in> set (renderMorphingDots MORPH_TIMING OPACITY g projection scatterData
       xScale yScale morphT (easeInOutQuad morphT))"
    by (auto simp: renderMorph_morphing dest: cls_renderFadingDistricts cls_renderMorphingDistricts)
  from renderMorphingDots_bounds [OF _ _ this] assms
  show "\<exists>cx cy r. shape p = Circle cx cy r \<and>
              0 \<le> cx \<and> cx \<le> innerWidth \<and> 0 \<le> cy \<and> cy \<le> innerHeight"
    by simp
qed

text \<open>
  With the centroid projected to \<open>(-1000, -1000)\<close> and \<open>morphT = 0.6\<close> the raw blend
  of the x coordinate is \<open>-8.9\<close>; the marker is drawn at \<open>(0, 0)\<close>.
\<close>

theorem morphing_markers_within_bounds_witness:
  "(0::real) \<le> 610 \<and> (0::real) \<le> 410 \<and>
   snd (scaleRange (createXScale 610)) = 610 \<and> fst (scaleRange exampleYScale) = 410 \<and>
   (3 / 5 :: real) < 1 \<and>
   - 1000 + (scaleCall (createXScale 610) (scatterX point7) - (- 1000)) * easeInOutQuad (3 / 5)
     = - 89 / 10 \<and>
   map shape
     (filter (\<lambda>p. cls p = ''morph-dot'')
       (renderMorph exampleTiming exampleOpacity MainGroup SvgRoot outsideProjection
          (createXScale 610) exampleYScale [] [point7] [] {7} (3 / 5) Stunting exampleMargin 410
          False False))
    = [Circle 0 0 (17 / 5)]"
  using morphing_markers_within_bounds [where innerWidth = 610 and innerHeight = 410 and xScale = "createXScale 610"
      and yScale = exampleYScale and morphT = "3 / 5" and MORPH_TIMING = exampleTiming
      and OPACITY = exampleOpacity and g = MainGroup and svg = SvgRoot
      and projection = outsideProjection and mergedData = "[]" and scatterData = "[point7]"
      and allScatterData = "[]" and scatterUbigeos = "{7}" and currentOutcome = Stunting
      and margin = exampleMargin and isOutcomeTransition = False and isPhaseTrans = False]
  by (simp add: renderMorph_morphing renderFadingDistricts_def renderMorphingDistricts_def
      renderMorphingDots_def exampleTiming_def exampleOpacity_def outsideProjection_def
      morphDotCx_def morphDotCy_def createXScale_call createXScale_range exampleYScale_def
      point7_fields ease_06)

























lemma point9_fields: "scatterX point9 = - 40" "scatterY point9 = 30" "ubigeo point9 = 9"
  "centroidLon point9 = 3/2" "centroidLat point9 = 1/2"
  by (simp_all add: point9_def toScatterPoint_def flippedDistance_def district9_def
      MergedDistrictData.extend_def ScatterDataPoint.fields_def)

lemma morphedDistrictPath_no_centroid:
  "projection (centroidLon d, centroidLat d) = None \<Longrightarrow>
   morphedDistrictPath projection xScale yScale e d = []"
  by (simp add: morphedDistrictPath_def Let_def)

lemma renderMorphingDistricts_append:
  "renderMorphingDistricts OPACITY g projection (pre @ post) xScale yScale e =
   renderMorphingDistricts OPACITY g projection pre xScale yScale e @
   renderMorphingDistricts OPACITY g projection post xScale yScale e"
  by (simp add: renderMorphingDistricts_def)

lemma renderMorphingDots_append:
  "renderMorphingDots MORPH_TIMING OPACITY g projection (pre @ post) xScale yScale morphT e =
   renderMorphingDots MORPH_TIMING OPACITY g projection pre xScale yScale morphT e @
   renderMorphingDots MORPH_TIMING OPACITY g projection post xScale yScale morphT e"
  by (simp add: renderMorphingDots_def Let_def)

lemma renderMorphingDistricts_Nil:
  "renderMorphingDistricts OPACITY g projection [] xScale yScale e = []"
  by (simp add: renderMorphingDistricts_def)

lemma renderMorphingDots_Nil:
  "renderMorphingDots MORPH_TIMING OPACITY g projection [] xScale yScale morphT e = []"
  by (simp add: renderMorphingDots_def Let_def)

text \<open>
  Claim C10, as stated, fails for markers: with a projection that gives no coordinate for
  the centroid of district 7, \<open>renderMorphingDots\<close> still draws the marker of district 7,
  with \<open>0\<close> in place of the missing map coordinate.
\<close>

theorem missing_centroid_counterexample:
  "failingProjection (centroidLon point7, centroidLat point7) = None \<and>
   map shape (renderMorphingDots exampleTiming exampleOpacity MainGroup failingProjection [point7]
      (createXScale 610) exampleYScale (3 / 5) (easeInOutQuad (3 / 5)))
    = [Circle (3111 / 10) (30668 / 125) (17 / 5)]"
  by (simp add: renderMorphingDots_def exampleTiming_def exampleOpacity_def failingProjection_def
      morphDotCx_def morphDotCy_def createXScale_call createXScale_range exampleYScale_def
      point7_fields ease_06)

text \<open>
  Claim C10, amended. If the projection gives no coordinate for the centroid of a district,
  then (a) the morphing-district path of that district is the empty path: nothing is drawn
  for it and nothing is thrown; (b) its marker is not skipped: it is drawn with \<open>0\<close>
  in place of the missing map coordinate, that is at
  \<open>(clamp (xScale(scatterX) * e), clamp (yScale(scatterY) * e))\<close> for the eased
  sub-progress \<open>e\<close>; and (c) the paths and markers of all other districts, before and
  after it in the data, are rendered as they are without it.
\<close>

theorem missing_centroid_rendering:
  assumes "projection (centroidLon d, centroidLat d) = None"
  shows "renderMorphingDistricts OPACITY g projection (pre @ d # post) xScale yScale e =
           renderMorphingDistricts OPACITY g projection pre xScale yScale e @
           \<lparr> parent = g, cls = ''morphing-district'', datum = Some (ubigeo d),
             ownTranslate = None, shape = PathD [],
             opacity = opacityDot OPACITY * (1 - e * (3 / 10)) \<rparr> #
           renderMorphingDistricts OPACITY g projection post xScale yScale e \<and>
         (dotFadeStart MORPH_TIMING < morphT \<longrightarrow>
           renderMorphingDots MORPH_TIMING OPACITY g projection (pre @ d # post) xScale yScale
             morphT e =
           renderMorphingDots MORPH_TIMING OPACITY g projection pre xScale yScale morphT e @
           \<lparr> parent = g, cls = ''morph-dot'', datum = Some (ubigeo d),
             ownTranslate = None,
             shape = Circle
               (max 0 (min (snd (scaleRange xScale)) (scaleCall xScale (scatterX d) * e)))
               (max 0 (min (fst (scaleRange yScale)) (scaleCall yScale (scatterY d) * e)))
               (5 * e),
             opacity = min 1 ((morphT - dotFadeStart MORPH_TIMING)
                         / (dotFadeEnd MORPH_TIMING - dotFadeStart MORPH_TIMING))
                       * opacityDot OPACITY \<rparr> #
           renderMorphingDots MORPH_TIMING OPACITY g projection post xScale yScale morphT e)"
  using assms
  by (simp add: renderMorphingDistricts_def renderMorphingDots_def Let_def
      morphedDistrictPath_no_centroid morphDotCx_def morphDotCy_def)

theorem missing_centroid_rendering_witness:
  "failingProjection (centroidLon point7, centroidLat point7) = None \<and>
   renderMorphingDistricts exampleOpacity MainGroup failingProjection [point7, point9]
       (createXScale 610) exampleYScale (17 / 25) =
     \<lparr> parent = MainGroup, cls = ''morphing-district'', datum = Some 7, ownTranslate = None,
       shape = PathD [], opacity = 398 / 625 \<rparr> #
     renderMorphingDistricts exampleOpacity MainGroup failingProjection [point9]
       (createXScale 610) exampleYScale (17 / 25) \<and>
   dotFadeStart exampleTiming < 3 / 5 \<and>
   renderMorphingDots exampleTiming exampleOpacity MainGroup failingProjection [point7, point9]
       (createXScale 610) exampleYScale (3 / 5) (17 / 25) =
     \<lparr> parent = MainGroup, cls = ''morph-dot'', datum = Some 7, ownTranslate = None,
       shape = Circle (3111 / 10) (30668 / 125) (17 / 5), opacity = 4 / 15 \<rparr> #
     renderMorphingDots exampleTiming exampleOpacity MainGroup failingProjection [point9]
       (createXScale 610) exampleYScale (3 / 5) (17 / 25)"
  using missing_centroid_rendering [where projection = failingProjection and d = point7 and pre = "[]"
      and post = "[point9]" and OPACITY = exampleOpacity and g = MainGroup
      and xScale = "createXScale 610" and yScale = exampleYScale and e = "17 / 25"
      and MORPH_TIMING = exampleTiming and morphT = "3 / 5"]
  by (simp add: failingProjection_def point7_fields exampleTiming_def exampleOpacity_def
      createXScale_call createXScale_range exampleYScale_def renderMorphingDistricts_Nil
      renderMorphingDots_Nil)

section \<open>Properties of the path dispatch\<close>

lemma morphTOf_ge1:
  assumes "morphStart MT < morphEnd MT" "morphEnd MT = 1" "1 \<le> t"
  shows "morphTOf MT t = 1"
proof -
  have "1 \<le> (t - morphStart MT) / (morphEnd MT - morphStart MT)"
    using assms by (simp add: pos_le_divide_eq)
  then show ?thesis by (simp add: morphTOf_def)
qed

lemma morphTOf_lt1:
  assumes "morphStart MT < morphEnd MT" "morphEnd MT = 1" "t < 1"
  shows "morphTOf MT t < 1"
proof -
  have "(t - morphStart MT) / (morphEnd MT - morphStart MT) < 1"
    using assms by (simp add: pos_divide_less_eq)
  then show ?thesis by (simp add: morphTOf_def)
qed

text \<open>
  Claim C4. With timing constants \<open>start < end = 1\<close> (the constants are parameters),
  the render path of a frame is selected exactly by: \<open>t < 0.3\<close> the map path;
  \<open>t \<ge> 0.3\<close> with \<open>outcomeChanged\<close> the outcome-transition path; \<open>t \<ge> 0.3\<close> with
  \<open>phaseChanged\<close> and not \<open>outcomeChanged\<close> the phase-settle path; \<open>0.3 \<le> t < 1\<close>
  with no edge flag the morphing path; \<open>t \<ge> 1\<close> with no edge flag the full-scatter
  path. \<open>outcomeChanged\<close> holds only when \<open>t \<ge> 1\<close> and the active outcome differs from
  the previously rendered one. For \<open>t \<ge> 0.3\<close> the call of \<open>renderMorph\<close> renders what
  the selected path renders; on the full-scatter path these are the markers at the clamped
  final scatter coordinates, with no interpolation and no use of the projection.
\<close>

theorem renderPath_dispatch:
  assumes "morphStart MT < morphEnd MT" and "morphEnd MT = 1"
  shows
   "renderPath MT refs t currentOutcome scatterPhase =
      (if t < 3 / 10 then MapPath
       else if isOutcomeOnlyTransition t refs currentOutcome then OutcomeTransitionPath
       else if isPhaseTransition t refs scatterPhase then PhaseSettlePath
       else if t < 1 then MorphingPath
       else FullScatterPath) \<and>
    (isOutcomeOnlyTransition t refs currentOutcome \<longrightarrow>
       1 \<le> t \<and> prevOutcomeRef refs \<noteq> Some currentOutcome) \<and>
    (3 / 10 \<le> t \<longrightarrow>
       renderMorph MT OPACITY g svg projection xScale yScale mergedData scatterData
         allScatterData scatterUbigeos (morphTOf MT t) currentOutcome margin innerHeight
         (isOutcomeOnlyTransition t refs currentOutcome) (isPhaseTransition t refs scatterPhase) =
       (if isOutcomeOnlyTransition t refs currentOutcome then
          renderOutcomeTransition OPACITY g allScatterData xScale yScale innerHeight currentOutcome
        else if isPhaseTransition t refs scatterPhase then
          renderFullScatterDots OPACITY g scatterData xScale yScale
        else if t < 1 then
          renderFadingDistricts g projection mergedData scatterUbigeos
            (easeInOutQuad (morphTOf MT t)) @
          renderMorphingDistricts OPACITY g projection scatterData xScale yScale
            (easeInOutQuad (morphTOf MT t)) @
          renderMorphingDots MT OPACITY g projection scatterData xScale yScale (morphTOf MT t)
            (easeInOutQuad (morphTOf MT t))
        else
          map (\<lambda>d. \<lparr> parent = g, cls = ''morph-dot'', datum = Some (ubigeo d),
                      ownTranslate = None,
                      shape = Circle
                        (max 0 (min (snd (scaleRange xScale)) (scaleCall xScale (scatterX d))))
                        (max 0 (min (fst (scaleRange yScale)) (scaleCall yScale (scatterY d))))
                        5,
                      opacity = opacityDot OPACITY \<rparr>)
              scatterData))"
proof (cases "1 \<le> t")
  case True
  then have m: "morphTOf MT t = 1" using assms by (simp add: morphTOf_ge1)
  from True m show ?thesis
    by (simp add: renderPath_def morphBranch_def renderMorph_full renderFullScatterDots_def
        isOutcomeOnlyTransition_def)
next
  case False
  then have m: "morphTOf MT t < 1" using assms by (simp add: morphTOf_lt1)
  from False have "\<not> isOutcomeOnlyTransition t refs currentOutcome"
    "\<not> isPhaseTransition t refs scatterPhase"
    by (simp_all add: isOutcomeOnlyTransition_def isPhaseTransition_def)
  with False m show ?thesis
    by (simp add: renderPath_def morphBranch_def renderMorph_morphing)
qed

theorem renderPath_dispatch_witness:
  "morphStart exampleTiming < morphEnd exampleTiming \<and> morphEnd exampleTiming = 1 \<and>
   renderPath exampleTiming exampleRefs (1 / 10) Stunting Dots = MapPath \<and>
   renderPath exampleTiming exampleRefs (13 / 20) Stunting Dots = MorphingPath \<and>
   renderPath exampleTiming exampleRefs 1 Consumption Dots = OutcomeTransitionPath \<and>
   renderPath exampleTiming exampleRefs 1 Consumption Ols = OutcomeTransitionPath \<and>
   renderPath exampleTiming exampleRefs 1 Stunting Ols = PhaseSettlePath \<and>
   renderPath exampleTiming exampleRefs 1 Stunting Dots = FullScatterPath"
  using renderPath_dispatch [where MT = exampleTiming and refs = exampleRefs and t = "1 / 10"
      and currentOutcome = Stunting and scatterPhase = Dots]
    renderPath_dispatch [where MT = exampleTiming and refs = exampleRefs and t = "13 / 20"
      and currentOutcome = Stunting and scatterPhase = Dots]
    renderPath_dispatch [where MT = exampleTiming and refs = exampleRefs and t = 1
      and currentOutcome = Consumption and scatterPhase = Dots]
    renderPath_dispatch [where MT = exampleTiming and refs = exampleRefs and t = 1
      and currentOutcome = Consumption and scatterPhase = Ols]
    renderPath_dispatch [where MT = exampleTiming and refs = exampleRefs and t = 1
      and currentOutcome = Stunting and scatterPhase = Ols]
    renderPath_dispatch [where MT = exampleTiming and refs = exampleRefs and t = 1
      and currentOutcome = Stunting and scatterPhase = Dots]
  by (simp add: exampleTiming_def exampleRefs_def isOutcomeOnlyTransition_def
      isPhaseTransition_def)





section \<open>Properties of the boundary computation\<close>

lemma matchingPairs_Nil: "matchingPairs [] poly2 = 0"
  by (simp add: matchingPairs_def)

lemma matchingPairs_Cons:
  "matchingPairs (v1 # poly1) poly2 =
     length (filter (verticesMatch v1) poly2) + matchingPairs poly1 poly2"
proof -
  have "filter (\<lambda>(a, b). verticesMatch a b) (map (Pair v1) poly2)
        = map (Pair v1) (filter (verticesMatch v1) poly2)"
    by (induction poly2) auto
  then show ?thesis by (simp add: matchingPairs_def)
qed

lemma innerLoop_count:
  "c < 2 \<Longrightarrow>
   innerLoop v1 poly2 c =
     (if 2 \<le> c + length (filter (verticesMatch v1) poly2) then Inl True
      else Inr (c + length (filter (verticesMatch v1) poly2)))"
  by (induction poly2 arbitrary: c) auto

lemma outerLoop_count:
  "c < 2 \<Longrightarrow> outerLoop poly1 poly2 c = (2 \<le> c + matchingPairs poly1 poly2)"
proof (induction poly1 arbitrary: c)
  case Nil
  then show ?case by (simp add: matchingPairs_Nil)
next
  case (Cons v1 poly1)
  show ?case
  proof (cases "2 \<le> c + length (filter (verticesMatch v1) poly2)")
    case True
    with Cons.prems show ?thesis
      by (simp add: innerLoop_count matchingPairs_Cons)
  next
    case False
    then have "c + length (filter (verticesMatch v1) poly2) < 2" by simp
    from Cons.IH [OF this] False Cons.prems show ?thesis
      by (simp add: innerLoop_count matchingPairs_Cons add.assoc)
  qed
qed

lemma matchingPairs_pos_iff:
  "0 < matchingPairs poly1 poly2 \<longleftrightarrow>
     (\<exists>v1 \<in> set poly1. \<exists>v2 \<in> set poly2. verticesMatch v1 v2)"
proof -
  have "0 < matchingPairs poly1 poly2 \<longleftrightarrow>
        filter (\<lambda>(v1, v2). verticesMatch v1 v2) (List.product poly1 poly2) \<noteq> []"
    by (simp add: matchingPairs_def)
  also have "\<dots> \<longleftrightarrow> (\<exists>v1 \<in> set poly1. \<exists>v2 \<in> set poly2. verticesMatch v1 v2)"
    by (auto simp: filter_empty_conv)
  finally show ?thesis .
qed

text \<open>The box of a polygon contains each of its vertices.\<close>

lemma xmin_keeps_below: "\<not> xless (Finite x) a \<Longrightarrow> \<not> xless (Finite x) (xmin a y)"
  by (cases a) auto

lemma xmin_below_new: "\<not> xless (Finite y) (xmin a y)"
  by (cases a) auto

lemma xmax_keeps_above: "\<not> xless a (Finite x) \<Longrightarrow> \<not> xless (xmax a y) (Finite x)"
  by (cases a) auto

lemma xmax_above_new: "\<not> xless (xmax a y) (Finite y)"
  by (cases a) auto

lemma bboxLoop_keeps:
  "(\<not> xless (Finite x) (minLat b) \<longrightarrow> \<not> xless (Finite x) (minLat (bboxLoop poly b))) \<and>
   (\<not> xless (maxLat b) (Finite x) \<longrightarrow> \<not> xless (maxLat (bboxLoop poly b)) (Finite x)) \<and>
   (\<not> xless (Finite x) (minLon b) \<longrightarrow> \<not> xless (Finite x) (minLon (bboxLoop poly b))) \<and>
   (\<not> xless (maxLon b) (Finite x) \<longrightarrow> \<not> xless (maxLon (bboxLoop poly b)) (Finite x))"
proof (induction poly b rule: bboxLoop.induct)
  case (1 b)
  then show ?case by simp
next
  case (2 lat lon poly b)
  then show ?case
    by (simp add: xmin_keeps_below xmax_keeps_above)
qed

lemma bboxLoop_contains:
  "(lat, lon) \<in> set poly \<Longrightarrow>
   \<not> xless (Finite lat) (minLat (bboxLoop poly b)) \<and>
   \<not> xless (maxLat (bboxLoop poly b)) (Finite lat) \<and>
   \<not> xless (Finite lon) (minLon (bboxLoop poly b)) \<and>
   \<not> xless (maxLon (bboxLoop poly b)) (Finite lon)"
proof (induction poly b rule: bboxLoop.induct)
  case (1 b)
  then show ?case by simp
next
  case (2 lat' lon' poly b)
  let ?b = "\<lparr> minLat = xmin (minLat b) lat', maxLat = xmax (maxLat b) lat',
              minLon = xmin (minLon b) lon', maxLon = xmax (maxLon b) lon' \<rparr>"
  show ?case
  proof (cases "(lat, lon) = (lat', lon')")
    case True
    then show ?thesis
      using bboxLoop_keeps [of lat' ?b poly] bboxLoop_keeps [of lon' ?b poly]
      by (simp add: xmin_below_new xmax_above_new)
  next
    case False
    with "2.prems" have "(lat, lon) \<in> set poly" by auto
    from "2.IH" [OF this] show ?thesis by simp
  qed
qed

lemma getBBox_contains:
  "(lat, lon) \<in> set poly \<Longrightarrow>
   \<not> xless (Finite lat) (minLat (getBBox poly)) \<and>
   \<not> xless (maxLat (getBBox poly)) (Finite lat) \<and>
   \<not> xless (Finite lon) (minLon (getBBox poly)) \<and>
   \<not> xless (maxLon (getBBox poly)) (Finite lon)"
  unfolding getBBox_def by (rule bboxLoop_contains)

lemma not_separated:
  assumes "\<not> xless hi1 (Finite a)" and "\<not> xless (Finite b) lo2" and "\<bar>a - b\<bar> < 1 / 1000"
  shows "\<not> xless (xadd hi1 (1 / 1000 * 2)) lo2"
  using assms by (cases hi1; cases lo2) auto

lemma match_not_disjoint:
  assumes "v1 \<in> set poly1" and "v2 \<in> set poly2" and "verticesMatch v1 v2"
  shows "\<not> bboxDisjoint (getBBox poly1) (getBBox poly2)"
proof -
  obtain a1 o1 where v1: "v1 = (a1, o1)" by (cases v1)
  obtain a2 o2 where v2: "v2 = (a2, o2)" by (cases v2)
  from assms(3) have d: "\<bar>a1 - a2\<bar> < 1 / 1000" "\<bar>o1 - o2\<bar> < 1 / 1000"
    "\<bar>a2 - a1\<bar> < 1 / 1000" "\<bar>o2 - o1\<bar> < 1 / 1000"
    by (simp_all add: verticesMatch_def VERTEX_TOLERANCE_def v1 v2 abs_minus_commute)
  note b1 = getBBox_contains [OF assms(1) [unfolded v1]]
  note b2 = getBBox_contains [OF assms(2) [unfolded v2]]
  have "\<not> xless (xadd (maxLat (getBBox poly1)) (1 / 1000 * 2)) (minLat (getBBox poly2))"
    using b1 b2 d(1) by (intro not_separated [of _ a1 a2]) auto
  moreover have "\<not> xless (xadd (maxLat (getBBox poly2)) (1 / 1000 * 2)) (minLat (getBBox poly1))"
    using b1 b2 d(3) by (intro not_separated [of _ a2 a1]) auto
  moreover have "\<not> xless (xadd (maxLon (getBBox poly1)) (1 / 1000 * 2)) (minLon (getBBox poly2))"
    using b1 b2 d(2) by (intro not_separated [of _ o1 o2]) auto
  moreover have "\<not> xless (xadd (maxLon (getBBox poly2)) (1 / 1000 * 2)) (minLon (getBBox poly1))"
    using b1 b2 d(4) by (intro not_separated [of _ o2 o1]) auto
  ultimately show ?thesis
    by (simp add: bboxDisjoint_def Let_def VERTEX_TOLERANCE_def)
qed

lemma polygonsShareEdge_iff:
  "polygonsShareEdge poly1 poly2 \<longleftrightarrow> 2 \<le> matchingPairs poly1 poly2"
proof (cases "bboxDisjoint (getBBox poly1) (getBBox poly2)")
  case True
  then have "\<not> (\<exists>v1 \<in> set poly1. \<exists>v2 \<in> set poly2. verticesMatch v1 v2)"
    using match_not_disjoint by blast
  then have "matchingPairs poly1 poly2 = 0"
    using matchingPairs_pos_iff [of poly1 poly2] by simp
  with True show ?thesis by (simp add: polygonsShareEdge_def)
next
  case False
  then show ?thesis by (simp add: polygonsShareEdge_def outerLoop_count)
qed

lemma fold_addIfBordering:
  "fold (addIfBordering m) ns acc =
     acc \<union> {u. \<exists>n \<in> set ns. polygonsShareEdge (polygon m) (polygon n) \<and>
                  (u = ubigeo m \<or> u = ubigeo n)}"
  by (induction ns arbitrary: acc) (auto simp: addIfBordering_def)

lemma fold_fold_addIfBordering:
  "fold (\<lambda>m acc. fold (addIfBordering m) ns acc) ms acc =
     acc \<union> {u. \<exists>m \<in> set ms. \<exists>n \<in> set ns. polygonsShareEdge (polygon m) (polygon n) \<and>
                  (u = ubigeo m \<or> u = ubigeo n)}"
  by (induction ms arbitrary: acc) (auto simp: fold_addIfBordering)

text \<open>
  What the loops compute: \<open>polygonsShareEdge\<close> holds exactly when at least two pairs of
  vertex occurrences match within the tolerance (the bounding-box prefilter never rejects
  such polygons), and an id is in the set of \<open>computeBoundaryDistricts\<close> exactly when it
  belongs to a pair of a district with \<open>mita = 1\<close> and one with \<open>mita = 0\<close> whose
  polygons have at least two such pairs; each such pair puts both ids into the set.
\<close>

lemma computeBoundaryDistricts_pairs:
  "(polygonsShareEdge poly1 poly2 \<longleftrightarrow> 2 \<le> matchingPairs poly1 poly2) \<and>
   (u \<in> computeBoundaryDistricts mergedData \<longleftrightarrow>
      (\<exists>m \<in> set mergedData. \<exists>n \<in> set mergedData.
          mita m = 1 \<and> mita n = 0 \<and> 2 \<le> matchingPairs (polygon m) (polygon n) \<and>
          (u = ubigeo m \<or> u = ubigeo n))) \<and>
   (\<forall>a \<in> set mergedData. \<forall>b \<in> set mergedData.
      mita a = 1 \<and> mita b = 0 \<and> 2 \<le> matchingPairs (polygon a) (polygon b) \<longrightarrow>
      ubigeo a \<in> computeBoundaryDistricts mergedData \<and>
      ubigeo b \<in> computeBoundaryDistricts mergedData)"
  by (auto simp: computeBoundaryDistricts_def Let_def fold_fold_addIfBordering
      polygonsShareEdge_iff)

text \<open>
  Claim C9 fails on the code. The closed rings of the two districts below share the single
  point \<open>(0, 0)\<close>, which each ring lists as its first and as its last vertex, and no
  other: one shared vertex, no shared edge. The loops count the four pairs of occurrences
  of that point, \<open>polygonsShareEdge\<close> is true, and both ids are put into the set, whereas
  the claim (and the comment \<open>at least 2 shared vertices = shared edge\<close> of the code)
  has a pair with one matching vertex contribute neither id.
\<close>

theorem computeBoundaryDistricts_single_shared_vertex:
  "sharedVertexCount (polygon cornerMita) (polygon cornerNonMita) = 1 \<and>
   sharedVertexCount (polygon cornerNonMita) (polygon cornerMita) = 1 \<and>
   matchingPairs (polygon cornerMita) (polygon cornerNonMita) = 4 \<and>
   polygonsShareEdge (polygon cornerMita) (polygon cornerNonMita) \<and>
   computeBoundaryDistricts [cornerMita, cornerNonMita] = {21, 22}"
  by (simp add: computeBoundaryDistricts_def addIfBordering_def polygonsShareEdge_def
      getBBox_def bboxDisjoint_def verticesMatch_def VERTEX_TOLERANCE_def matchingPairs_def
      sharedVertexCount_def cornerMita_def cornerNonMita_def insert_commute)

section \<open>Alignment of what the morph renderer draws\<close>

text \<open>
  Every primitive that \<open>renderMorph\<close> draws (fading and morphing district paths, markers
  on each of its branches) is appended to the group \<open>g\<close> it is handed and sets no
  transform of its own; the render effect hands it the group of class \<open>main-group\<close>.
\<close>

lemma renderMorph_aligned:
  "p \<in> set (renderMorph MT OPACITY g svg projection xScale yScale mergedData scatterData
       allScatterData scatterUbigeos morphT currentOutcome margin innerHeight isOT isPT)
   \<Longrightarrow> parent p = g \<and> ownTranslate p = None"
  by (auto simp: renderMorph_def Let_def renderFadingDistricts_def renderOutcomeTransition_def
      renderFullScatterDots_def renderMorphingDistricts_def renderMorphingDots_def
      split: if_splits)

end
